theory Spec2Isabelle
  imports Main "HOL-Library.AList"
begin

section \<open>Exceptions, results and the environment\<close>

text \<open>
  The backend registry of dlicv (\<^verbatim>\<open>backend/base/backend_manager.py\<close>) and its two
  concrete managers (TensorRT, Ascend) are embedded as functions on explicit state.
  A Python exception is a value: every function that can raise returns a sum, with
  \<open>Inl\<close> for the exception that leaves the function.

  The values of \<open>py_exception\<close> are instances of subclasses of Python's \<^verbatim>\<open>Exception\<close>;
  the constructor \<open>Exception\<close> stands for any subclass that the code does not name.
  A clause \<^verbatim>\<open>except Exception\<close> therefore catches every value of this type, and
  \<^verbatim>\<open>except NotImplementedError\<close> catches the first constructor only. Signals that derive
  from \<^verbatim>\<open>BaseException\<close> alone (a keyboard interrupt, an interpreter exit) are not
  failures of a probe and are not represented.
\<close>

datatype py_exception =
    NotImplementedError string
  | FileNotFoundError string
  | IndexError string
  | ModuleNotFoundError string
  | AttributeError string
  | TypeError string
  | Exception string

type_synonym 'a result = "py_exception + 'a"

type_synonym class_id = nat

text \<open>
  What a module does when it is imported for the first time: its body raises, or it runs
  its registration decorators in order. A registration is the triple of the decorator's
  arguments \<open>name\<close>, \<open>enum_name\<close> and the class object it is applied to.
\<close>

type_synonym registration = "string \<times> string option \<times> class_id"

datatype module_body = Import_raises py_exception | Import_runs "registration list"

text \<open>
  Everything the code asks of the interpreter, the file system and the installed
  packages is a field of the environment:
  \<^item> \<open>find_spec n\<close>: whether \<^verbatim>\<open>importlib.util.find_spec(n)\<close> is not \<^verbatim>\<open>None\<close>, or the
    exception it raises;
  \<^item> \<open>import_pkg_resources\<close>: the exception raised by \<^verbatim>\<open>import pkg_resources\<close>, if any;
  \<^item> \<open>distribution_version n\<close>: the outcome of
    \<^verbatim>\<open>pkg_resources.get_distribution(n).version\<close>;
  \<^item> \<open>expanduser\<close>, \<open>isfile\<close>: \<^verbatim>\<open>os.path.expanduser\<close> and \<^verbatim>\<open>os.path.isfile\<close>;
  \<^item> \<open>modules m\<close>: what importing the module named \<open>m\<close> does; where there is no such
    module this is the \<^verbatim>\<open>ModuleNotFoundError\<close> that the import system raises.
\<close>

record environment =
  find_spec :: "string \<Rightarrow> bool result"
  import_pkg_resources :: "py_exception option"
  distribution_version :: "string \<Rightarrow> string result"
  expanduser :: "string \<Rightarrow> string"
  isfile :: "string \<Rightarrow> bool"
  modules :: "string \<Rightarrow> module_body"

section \<open>BaseBackendManager\<close>

text \<open>
  A manager is used as a class, never instantiated: its class methods are the fields of
  a record, and the class attribute \<open>backend_name\<close> exists only once a registration has
  set it. \<open>cls_name\<close> is \<^verbatim>\<open>cls.__name__\<close>.
\<close>

record manager =
  cls_name :: string
  backend_name :: "string option"
  is_available :: "bool \<Rightarrow> environment \<Rightarrow> bool result"
  get_version :: "environment \<Rightarrow> string result"

definition BaseBackendManager_is_available :: "string \<Rightarrow> bool \<Rightarrow> environment \<Rightarrow> bool result" where
  "BaseBackendManager_is_available cname with_custom_ops env =
     Inl (NotImplementedError (''is_available has not been implemented for \"'' @ cname @ ''\"''))"

definition BaseBackendManager_get_version :: "string \<Rightarrow> environment \<Rightarrow> string result" where
  "BaseBackendManager_get_version cname env =
     Inl (NotImplementedError (''get_version has not been implemented for \"'' @ cname @ ''\"''))"

definition BaseBackendManager :: "string \<Rightarrow> manager" where
  "BaseBackendManager cname =
     \<lparr>cls_name = cname, backend_name = None,
      is_available = BaseBackendManager_is_available cname,
      get_version = BaseBackendManager_get_version cname\<rparr>"

definition TAB :: char where
  "TAB = CHR 0x09"

text \<open>A name between single quotes, as Python prints it in its messages.\<close>

definition quoted :: "string \<Rightarrow> string" where
  "quoted s = [CHR 0x27] @ s @ [CHR 0x27]"

text \<open>Reading \<^verbatim>\<open>cls.backend_name\<close>: an attribute error when no registration has set it.\<close>

definition get_backend_name :: "manager \<Rightarrow> string result" where
  "get_backend_name cls =
     (case backend_name cls of
        None \<Rightarrow> Inl (AttributeError
          (''type object '' @ quoted (cls_name cls) @ '' has no attribute '' @
           quoted ''backend_name''))
      | Some n \<Rightarrow> Inr n)"

text \<open>The body of the outer \<^verbatim>\<open>try\<close> of \<^verbatim>\<open>check_env\<close>, in the order the code runs it.\<close>

definition check_env_try :: "manager \<Rightarrow> environment \<Rightarrow> string result" where
  "check_env_try cls env =
     (case is_available cls False env of
        Inl e \<Rightarrow> Inl e
      | Inr available \<Rightarrow>
          (case (if available
                 then (case get_version cls env of
                         Inl (NotImplementedError m) \<Rightarrow> Inr ''Unknown''
                       | Inl e \<Rightarrow> Inl e
                       | Inr v \<Rightarrow> Inr v)
                 else Inr ''None'') of
             Inl e \<Rightarrow> Inl e
           | Inr backend_version \<Rightarrow>
               (case get_backend_name cls of
                  Inl e \<Rightarrow> Inl e
                | Inr n \<Rightarrow> Inr (n @ '':'' @ [TAB] @ backend_version))))"

text \<open>
  \<^verbatim>\<open>check_env\<close>. The handler \<^verbatim>\<open>except Exception\<close> formats the line again, so it reads
  \<^verbatim>\<open>cls.backend_name\<close> itself and is not guarded. The callback runs after the
  \<^verbatim>\<open>try\<close> statement. A callback is a function of the line and of a state \<open>'l\<close> of its
  own (what it has logged so far); it returns that state and the exception it raises,
  if any. The value a callback returns is discarded by the code.
\<close>

definition check_env ::
  "manager \<Rightarrow> environment \<Rightarrow> (string \<Rightarrow> 'l \<Rightarrow> 'l \<times> py_exception option) \<Rightarrow> 'l
     \<Rightarrow> 'l \<times> string result" where
  "check_env cls env log_callback l =
     (case (case check_env_try cls env of
              Inr info \<Rightarrow> Inr info
            | Inl e \<Rightarrow>
                (case get_backend_name cls of
                   Inl e' \<Rightarrow> Inl e'
                 | Inr n \<Rightarrow> Inr (n @ '':'' @ [TAB] @ ''CheckFailed''))) of
        Inl e \<Rightarrow> (l, Inl e)
      | Inr info \<Rightarrow>
          (case log_callback info l of
             (l', Some e) \<Rightarrow> (l', Inl e)
           | (l', None) \<Rightarrow> (l', Inr info)))"

text \<open>The default callback \<^verbatim>\<open>lambda _: _\<close>.\<close>

definition default_log_callback :: "string \<Rightarrow> 'l \<Rightarrow> 'l \<times> py_exception option" where
  "default_log_callback line l = (l, None)"

text \<open>A callback that records each line it is given, and one that raises.\<close>

definition recording_callback :: "string \<Rightarrow> string list \<Rightarrow> string list \<times> py_exception option" where
  "recording_callback line l = (l @ [line], None)"

definition raising_callback :: "py_exception \<Rightarrow> string \<Rightarrow> 'l \<Rightarrow> 'l \<times> py_exception option" where
  "raising_callback e line l = (l, Some e)"

text \<open>
  The summary line as the specification words it: the version when the backend is
  available (\<open>Unknown\<close> when \<^verbatim>\<open>get_version\<close> is not implemented), \<open>None\<close> when it is not
  available, \<open>CheckFailed\<close> on any other exception.
\<close>

definition check_env_spec_line :: "manager \<Rightarrow> environment \<Rightarrow> string \<Rightarrow> string" where
  "check_env_spec_line cls env n =
     n @ '':'' @ [TAB] @
       (case is_available cls False env of
          Inl e \<Rightarrow> ''CheckFailed''
        | Inr False \<Rightarrow> ''None''
        | Inr True \<Rightarrow>
            (case get_version cls env of
               Inr v \<Rightarrow> v
             | Inl (NotImplementedError m) \<Rightarrow> ''Unknown''
             | Inl e \<Rightarrow> ''CheckFailed''))"

text \<open>
  An environment with nothing installed, no file, and no module: an import fails with
  the message Python gives for a missing module of an existing package.
\<close>

definition bare_env :: environment where
  "bare_env =
     \<lparr>find_spec = (\<lambda>n. Inr False),
      import_pkg_resources = None,
      distribution_version = (\<lambda>n. Inl (Exception ''DistributionNotFound'')),
      expanduser = (\<lambda>p. p),
      isfile = (\<lambda>p. False),
      modules = (\<lambda>m. Import_raises (ModuleNotFoundError (''No module named '' @ quoted m)))\<rparr>"

section \<open>The concrete managers\<close>

text \<open>
  Modelled from the spec: the wrapper classes \<^verbatim>\<open>TRTBackend\<close> and \<^verbatim>\<open>AscendBackend\<close>, which
  live in the \<^verbatim>\<open>backend\<close> modules next to the managers and are not part of the sources
  at hand. Constructing one yields the "backend-specific runnable wrapper object", an
  external collaborator whose internals are out of scope: a wrapper is the value of its
  constructor's arguments, and the function-local import of the wrapper class binds the
  name.
\<close>

datatype backend_wrapper =
    TRTBackend (engine_file: string)
  | AscendBackend (model_file: string) (wrapper_device_id: int)

text \<open>\<^verbatim>\<open>backend_files[0]\<close> on a Python list.\<close>

definition first_item :: "'a list \<Rightarrow> 'a result" where
  "first_item xs =
     (case xs of [] \<Rightarrow> Inl (IndexError ''list index out of range'') | x # _ \<Rightarrow> Inr x)"

definition not_found_message :: "string \<Rightarrow> string" where
  "not_found_message backend_file = ''`'' @ backend_file @ ''` not found.''"

definition TensorRTManager_build_backend ::
  "environment \<Rightarrow> string list \<Rightarrow> string \<Rightarrow> int \<Rightarrow> string list option \<Rightarrow> string list option
     \<Rightarrow> backend_wrapper result" where
  "TensorRTManager_build_backend env backend_files device_type device_id input_names output_names =
     (case first_item backend_files of
        Inl e \<Rightarrow> Inl e
      | Inr f \<Rightarrow>
          (let backend_file = expanduser env f in
           if \<not> isfile env backend_file
           then Inl (FileNotFoundError (not_found_message backend_file))
           else Inr (TRTBackend backend_file)))"

definition TensorRTManager_is_available :: "bool \<Rightarrow> environment \<Rightarrow> bool result" where
  "TensorRTManager_is_available with_custom_ops env = find_spec env ''tensorrt''"

definition TensorRTManager_get_version :: "environment \<Rightarrow> string result" where
  "TensorRTManager_get_version env =
     (case TensorRTManager_is_available False env of
        Inl e \<Rightarrow> Inl e
      | Inr False \<Rightarrow> Inr ''None''
      | Inr True \<Rightarrow>
          (case import_pkg_resources env of
             Some e \<Rightarrow> Inl e
           | None \<Rightarrow>
               (case distribution_version env ''tensorrt'' of
                  Inr v \<Rightarrow> Inr v
                | Inl e \<Rightarrow> Inr ''None'')))"

definition TensorRTManager :: manager where
  "TensorRTManager =
     \<lparr>cls_name = ''TensorRTManager'', backend_name = None,
      is_available = TensorRTManager_is_available,
      get_version = TensorRTManager_get_version\<rparr>"

definition AscendManager_build_backend ::
  "environment \<Rightarrow> string list \<Rightarrow> string \<Rightarrow> int \<Rightarrow> string list option \<Rightarrow> string list option
     \<Rightarrow> backend_wrapper result" where
  "AscendManager_build_backend env backend_files device device_id input_names output_names =
     (case first_item backend_files of
        Inl e \<Rightarrow> Inl e
      | Inr f \<Rightarrow>
          (let backend_file = expanduser env f in
           if \<not> isfile env backend_file
           then Inl (FileNotFoundError (not_found_message backend_file))
           else Inr (AscendBackend backend_file device_id)))"

text \<open>
  \<^verbatim>\<open>find_spec('aclruntime') is not None and find_spec('ais_bench') is not None\<close>: the
  second probe runs only when the first one found the package.
\<close>

definition AscendManager_is_available :: "bool \<Rightarrow> environment \<Rightarrow> bool result" where
  "AscendManager_is_available with_custom_ops env =
     (case find_spec env ''aclruntime'' of
        Inl e \<Rightarrow> Inl e
      | Inr False \<Rightarrow> Inr False
      | Inr True \<Rightarrow> find_spec env ''ais_bench'')"

definition AscendManager_get_version :: "environment \<Rightarrow> string result" where
  "AscendManager_get_version env =
     (case AscendManager_is_available False env of
        Inl e \<Rightarrow> Inl e
      | Inr False \<Rightarrow> Inr ''None''
      | Inr True \<Rightarrow>
          (case import_pkg_resources env of
             Some e \<Rightarrow> Inl e
           | None \<Rightarrow>
               (case distribution_version env ''ais_bench'' of
                  Inr v \<Rightarrow> Inr v
                | Inl e \<Rightarrow> Inr ''None'')))"

definition AscendManager :: manager where
  "AscendManager =
     \<lparr>cls_name = ''AscendManager'', backend_name = None,
      is_available = AscendManager_is_available,
      get_version = AscendManager_get_version\<rparr>"

text \<open>
  Environments for the concrete cases: one where the engine file \<^verbatim>\<open>~/m.engine\<close> of user
  \<^verbatim>\<open>/home/u\<close> exists, one where TensorRT is installed and \<^verbatim>\<open>pkg_resources\<close> is not, and
  one where both are installed.
\<close>

definition file_env :: environment where
  "file_env =
     bare_env\<lparr>expanduser := (\<lambda>p. if p = ''~/m.engine'' then ''/home/u/m.engine'' else p),
              isfile := (\<lambda>p. p = ''/home/u/m.engine'')\<rparr>"

definition no_pkg_resources_env :: environment where
  "no_pkg_resources_env =
     bare_env\<lparr>find_spec := (\<lambda>n. Inr True),
              import_pkg_resources := Some (ModuleNotFoundError ''No module named pkg_resources'')\<rparr>"

definition installed_env :: environment where
  "installed_env =
     bare_env\<lparr>find_spec := (\<lambda>n. Inr True),
              distribution_version := (\<lambda>n. if n = ''tensorrt'' then Inr ''8.6.1''
                                           else Inl (Exception ''DistributionNotFound''))\<rparr>"

section \<open>BackendManagerRegistry\<close>

text \<open>
  Modelled from the spec: the enumeration \<^verbatim>\<open>Backend\<close> of \<^verbatim>\<open>dlicv.utils\<close>, which is not
  part of the sources at hand. The enum collaborator is "an extensible set of known
  backend-name symbols". The class is given by its members, each a label and a value,
  in the order they were added, and by the names of its other attributes (methods,
  \<^verbatim>\<open>mro\<close>, \<^verbatim>\<open>__name__\<close> and whatever else the class and its metaclass define), which
  the builtin \<^verbatim>\<open>hasattr\<close> finds as well.
\<close>

record enum_class =
  members :: "(string \<times> string) list"
  other_attributes :: "string list"

text \<open>The builtin \<^verbatim>\<open>hasattr\<close> on the enumeration: true of a member and of any other attribute.\<close>

definition hasattr :: "enum_class \<Rightarrow> string \<Rightarrow> bool" where
  "hasattr enum label =
     (label \<in> set (map fst (members enum)) \<or> label \<in> set (other_attributes enum))"

text \<open>
  Modelled from the spec: \<^verbatim>\<open>aenum.extend_enum\<close>, a library that is not part of the
  sources at hand; the collaborator's operation "add member X with value Y". A name
  that is in use on the class is refused with a type error; \<open>wrap_manager\<close> asks
  \<open>hasattr\<close> first and never reaches that case.
\<close>

definition extend_enum :: "enum_class \<Rightarrow> string \<Rightarrow> string \<Rightarrow> enum_class result" where
  "extend_enum enum label v =
     (if hasattr enum label then Inl (TypeError (quoted label @ '' already in use''))
      else Inr (enum\<lparr>members := members enum @ [(label, v)]\<rparr>))"

text \<open>
  The process-wide state the registry works on: the registry's \<^verbatim>\<open>_module_dict\<close> (a
  Python dictionary, kept as an association list in insertion order), the \<^verbatim>\<open>Backend\<close>
  enumeration, the class objects (a store from the identity of a class to its
  attributes, since \<^verbatim>\<open>cls.backend_name = name\<close> mutates the class that the dictionary
  refers to), the modules imported so far, and the lines given to the root logger.
\<close>

record registry_state =
  module_dict :: "(string \<times> class_id) list"
  Backend :: enum_class
  classes :: "class_id \<Rightarrow> manager"
  sys_modules :: "string list"
  logged :: "string list"

text \<open>
  \<^verbatim>\<open>str.upper\<close> on the strings of the model, which are ASCII text (backend names are
  parts of module names): the letters a to z are mapped, every other byte is left as it
  is.
\<close>

definition upper_char :: "char \<Rightarrow> char" where
  "upper_char c =
     (case map_of (zip ''abcdefghijklmnopqrstuvwxyz'' ''ABCDEFGHIJKLMNOPQRSTUVWXYZ'') c of
        Some u \<Rightarrow> u
      | None \<Rightarrow> c)"

definition upper :: "string \<Rightarrow> string" where
  "upper s = map upper_char s"

text \<open>
  The decorator \<^verbatim>\<open>wrap_manager\<close> that \<^verbatim>\<open>register\<close> returns, applied to the class \<open>cls\<close>.
  The root logger (\<^verbatim>\<open>get_root_logger\<close> of \<^verbatim>\<open>dlicv.utils\<close>) is not part of the sources
  at hand; the specification describes it as "a generic line-oriented logger", and
  \<^verbatim>\<open>logger.info\<close> appends its line to \<open>logged\<close>.
\<close>

definition wrap_manager :: "string \<Rightarrow> string \<Rightarrow> class_id \<Rightarrow> registry_state \<Rightarrow> registry_state result" where
  "wrap_manager name enum_name cls s =
     (case (if \<not> hasattr (Backend s) enum_name
            then (case extend_enum (Backend s) enum_name name of
                    Inl e \<Rightarrow> Inl e
                  | Inr enum' \<Rightarrow>
                      Inr (s\<lparr>Backend := enum',
                             logged := logged s @
                               [''Registry new backend: '' @ enum_name @ '' = '' @ name @ ''.'']\<rparr>))
            else Inr s) of
        Inl e \<Rightarrow> Inl e
      | Inr s1 \<Rightarrow>
          (let s2 = (if name \<in> set (map fst (module_dict s1))
                     then s1\<lparr>logged := logged s1 @
                            [''Backend manager of `'' @ name @ ''` has already been registered.'']\<rparr>
                     else s1);
               s3 = s2\<lparr>module_dict := AList.update name cls (module_dict s2)\<rparr>;
               s4 = s3\<lparr>classes := (classes s3)(cls := (classes s3 cls)\<lparr>backend_name := Some name\<rparr>)\<rparr>
           in Inr s4))"

text \<open>\<^verbatim>\<open>register\<close>: the label defaults to the name in upper case.\<close>

definition enum_label :: "string \<Rightarrow> string option \<Rightarrow> string" where
  "enum_label name enum_name = (case enum_name of None \<Rightarrow> upper name | Some l \<Rightarrow> l)"

definition BackendManagerRegistry_register ::
  "string \<Rightarrow> string option \<Rightarrow> class_id \<Rightarrow> registry_state \<Rightarrow> registry_state result" where
  "BackendManagerRegistry_register name enum_name = wrap_manager name (enum_label name enum_name)"

text \<open>Applying decorators one after the other, as a module body or a caller does.\<close>

fun register_all :: "registration list \<Rightarrow> registry_state \<Rightarrow> registry_state result" where
  "register_all [] s = Inr s"
| "register_all ((name, enum_name, cls) # rs) s =
     (case BackendManagerRegistry_register name enum_name cls s of
        Inl e \<Rightarrow> Inl e
      | Inr s' \<Rightarrow> register_all rs s')"

text \<open>
  \<^verbatim>\<open>importlib.import_module\<close>: a module that is already loaded is not run again;
  otherwise the import does what the environment says of the module, raising its
  exception or running its body.
\<close>

definition mark_loaded :: "string \<Rightarrow> registry_state \<Rightarrow> registry_state" where
  "mark_loaded m s = s\<lparr>sys_modules := sys_modules s @ [m]\<rparr>"

definition import_module :: "environment \<Rightarrow> string \<Rightarrow> registry_state \<Rightarrow> registry_state result" where
  "import_module env m s =
     (if m \<in> set (sys_modules s) then Inr s
      else (case modules env m of
              Import_raises e \<Rightarrow> Inl e
            | Import_runs rs \<Rightarrow> register_all rs (mark_loaded m s)))"

definition backend_module :: "string \<Rightarrow> string" where
  "backend_module name = ''dlicv.backend.'' @ name"

definition BackendManagerRegistry_find ::
  "environment \<Rightarrow> string \<Rightarrow> registry_state \<Rightarrow> (class_id option \<times> registry_state) result" where
  "BackendManagerRegistry_find env name s =
     (case import_module env (backend_module name) s of
        Inl e \<Rightarrow> Inl e
      | Inr s' \<Rightarrow> Inr (map_of (module_dict s') name, s'))"

text \<open>The argument of \<^verbatim>\<open>get_backend_manager\<close>: a string, or a member of an enumeration.\<close>

datatype backend_arg = Str string | Enum_member (member_label: string) (member_value: string)

definition get_backend_manager ::
  "environment \<Rightarrow> backend_arg \<Rightarrow> registry_state \<Rightarrow> (class_id option \<times> registry_state) result" where
  "get_backend_manager env name s =
     BackendManagerRegistry_find env
       (case name of Enum_member l v \<Rightarrow> v | Str n \<Rightarrow> n) s"

text \<open>
  The state at process start: an empty registry, nothing imported, nothing logged; the
  class objects and the enumeration as it is declared are given.
\<close>

definition initial_state :: "(class_id \<Rightarrow> manager) \<Rightarrow> enum_class \<Rightarrow> registry_state" where
  "initial_state store enum =
     \<lparr>module_dict = [], Backend = enum, classes = store, sys_modules = [], logged = []\<rparr>"

text \<open>Running one step after another, stopping at the first exception.\<close>

definition then_do :: "'a result \<Rightarrow> ('a \<Rightarrow> 'b result) \<Rightarrow> 'b result" where
  "then_do r f = (case r of Inl e \<Rightarrow> Inl e | Inr x \<Rightarrow> f x)"

text \<open>
  The expression \<^verbatim>\<open>find(name).backend_name\<close>: the attribute is read on the class that
  \<^verbatim>\<open>find\<close> returns, in the state that \<^verbatim>\<open>find\<close> leaves.
\<close>

definition find_backend_name :: "environment \<Rightarrow> string \<Rightarrow> registry_state \<Rightarrow> string result" where
  "find_backend_name env name s =
     (case BackendManagerRegistry_find env name s of
        Inl e \<Rightarrow> Inl e
      | Inr (None, s') \<Rightarrow>
          Inl (AttributeError
            (quoted ''NoneType'' @ '' object has no attribute '' @ quoted ''backend_name''))
      | Inr (Some c, s') \<Rightarrow> get_backend_name (classes s' c))"

section \<open>Properties of states, histories and environments\<close>

text \<open>
  The registrations an import of \<open>m\<close> runs in state \<open>s\<close> (none when \<open>m\<close> is loaded
  already), and whether that import returns without an exception.
\<close>

definition pending_registrations :: "environment \<Rightarrow> string \<Rightarrow> registry_state \<Rightarrow> registration list" where
  "pending_registrations env m s =
     (if m \<in> set (sys_modules s) then []
      else (case modules env m of Import_runs rs \<Rightarrow> rs | Import_raises e \<Rightarrow> []))"

definition importable :: "environment \<Rightarrow> string \<Rightarrow> registry_state \<Rightarrow> bool" where
  "importable env m s =
     (m \<in> set (sys_modules s) \<or>
      (case modules env m of Import_runs rs \<Rightarrow> True | Import_raises e \<Rightarrow> False))"


definition members_with_value :: "string \<Rightarrow> registry_state \<Rightarrow> (string \<times> string) list" where
  "members_with_value v s = filter (\<lambda>m. snd m = v) (members (Backend s))"

text \<open>
  A history is the list of the registrations a process has run, oldest first. In a
  history, the class registered last under a name, the name a class object was
  registered under last, and the property that no class object is registered under two
  different names.
\<close>

definition last_class :: "string \<Rightarrow> registration list \<Rightarrow> class_id option" where
  "last_class name h = map_of (map (\<lambda>r. (fst r, snd (snd r))) (rev h)) name"

definition last_name :: "class_id \<Rightarrow> registration list \<Rightarrow> string option" where
  "last_name cls h = map_of (map (\<lambda>r. (snd (snd r), fst r)) (rev h)) cls"

definition single_named :: "registration list \<Rightarrow> bool" where
  "single_named h =
     list_all (\<lambda>r1. list_all (\<lambda>r2. snd (snd r1) \<noteq> snd (snd r2) \<or> fst r1 = fst r2) h) h"


section \<open>Concrete managers, stores and environments\<close>

text \<open>
  The managers of the specification's scenarios: \<open>dummy\<close> is available at version 1.0,
  \<open>dummy2\<close> is not available, \<open>broken\<close> has an availability probe that throws, and
  \<open>unversioned\<close> is available and does not override \<^verbatim>\<open>get_version\<close>.
\<close>

definition dummy_manager :: manager where
  "dummy_manager =
     (BaseBackendManager ''Dummy'')
       \<lparr>backend_name := Some ''dummy'',
        is_available := (\<lambda>with_custom_ops env. Inr True),
        get_version := (\<lambda>env. Inr ''1.0'')\<rparr>"

definition dummy2_manager :: manager where
  "dummy2_manager =
     (BaseBackendManager ''Dummy2'')
       \<lparr>backend_name := Some ''dummy2'',
        is_available := (\<lambda>with_custom_ops env. Inr False)\<rparr>"

definition broken_manager :: manager where
  "broken_manager =
     (BaseBackendManager ''Broken'')
       \<lparr>backend_name := Some ''broken'',
        is_available := (\<lambda>with_custom_ops env. Inl (Exception ''probe failed''))\<rparr>"

definition unversioned_manager :: manager where
  "unversioned_manager =
     (BaseBackendManager ''Unversioned'')
       \<lparr>backend_name := Some ''unversioned'',
        is_available := (\<lambda>with_custom_ops env. Inr True)\<rparr>"

text \<open>
  A store in which class 0 is the TensorRT manager, class 1 the Ascend manager and
  every other class a bare subclass of the base manager; an enumeration class with
  given members and a few attributes every class has; and an environment whose module
  \<^verbatim>\<open>dlicv.backend.tensorrt\<close> registers class 0 and whose module \<^verbatim>\<open>dlicv.backend.plain\<close>
  registers nothing.
\<close>

definition example_store :: "class_id \<Rightarrow> manager" where
  "example_store =
     (\<lambda>c. BaseBackendManager ''Custom'')(0 := TensorRTManager, 1 := AscendManager)"

definition example_enum :: "(string \<times> string) list \<Rightarrow> enum_class" where
  "example_enum ms = \<lparr>members = ms, other_attributes = [''mro'', ''__name__'', ''__members__'']\<rparr>"

definition example_env :: environment where
  "example_env =
     bare_env\<lparr>modules :=
       (\<lambda>m. if m = ''dlicv.backend.tensorrt'' then Import_runs [(''tensorrt'', None, 0)]
            else if m = ''dlicv.backend.plain'' then Import_runs []
            else Import_raises (ModuleNotFoundError (''No module named '' @ quoted m)))\<rparr>"

text \<open>The state after the TensorRT manager has registered itself in a fresh process.\<close>

definition tensorrt_registered :: registry_state where
  "tensorrt_registered =
     \<lparr>module_dict = [(''tensorrt'', 0)], Backend = example_enum [(''TENSORRT'', ''tensorrt'')],
      classes = example_store(0 := TensorRTManager\<lparr>backend_name := Some ''tensorrt''\<rparr>),
      sys_modules = [], logged = [''Registry new backend: TENSORRT = tensorrt.'']\<rparr>"

section \<open>The environment check\<close>

text \<open>
  For a class that carries a \<open>backend_name\<close>, \<^verbatim>\<open>check_env\<close> gives the callback the line
  that the specification describes, and what happens next is up to the callback.
\<close>

lemma check_env_line:
  "backend_name cls = Some n \<Longrightarrow>
   check_env cls env log_callback l =
     (case log_callback (check_env_spec_line cls env n) l of
        (l', Some e) \<Rightarrow> (l', Inl e)
      | (l', None) \<Rightarrow> (l', Inr (check_env_spec_line cls env n)))"
  by (simp add: check_env_def check_env_try_def check_env_spec_line_def get_backend_name_def
      split: sum.splits bool.splits py_exception.splits prod.splits option.splits)

lemma check_env_scenarios:
  "snd (check_env dummy_manager bare_env default_log_callback ()) = Inr (''dummy:'' @ [TAB] @ ''1.0'')"
  "snd (check_env dummy2_manager bare_env default_log_callback ()) = Inr (''dummy2:'' @ [TAB] @ ''None'')"
  "snd (check_env unversioned_manager bare_env default_log_callback ()) =
     Inr (''unversioned:'' @ [TAB] @ ''Unknown'')"
  "snd (check_env broken_manager bare_env default_log_callback ()) =
     Inr (''broken:'' @ [TAB] @ ''CheckFailed'')"
  by (simp_all add: check_env_def check_env_try_def get_backend_name_def default_log_callback_def
      dummy_manager_def dummy2_manager_def unversioned_manager_def broken_manager_def
      BaseBackendManager_def BaseBackendManager_get_version_def)

text \<open>
  Without a \<open>backend_name\<close> the handler itself fails: a class that was never registered
  and whose availability probe is the base one gets an attribute error out of
  \<^verbatim>\<open>check_env\<close>.
\<close>

lemma check_env_unregistered_class:
  "snd (check_env (BaseBackendManager ''Custom'') bare_env default_log_callback ()) =
     Inl (AttributeError
       (''type object '' @ quoted ''Custom'' @ '' has no attribute '' @ quoted ''backend_name''))"
  by (simp add: check_env_def check_env_try_def get_backend_name_def default_log_callback_def
      BaseBackendManager_def BaseBackendManager_is_available_def)

text \<open>
  Claim C2. For every backend implementation that has a \<open>backend_name\<close>, whatever its
  probes \<^verbatim>\<open>is_available\<close> and \<^verbatim>\<open>get_version\<close> return or throw, \<^verbatim>\<open>check_env()\<close> with the
  default callback raises nothing and returns a string made of the backend name, a
  colon, a tab and a value.
\<close>

theorem check_env_never_raises:
  assumes "backend_name cls = Some n"
  shows "\<exists>v. check_env cls env default_log_callback l = (l, Inr (n @ '':'' @ [TAB] @ v))"
  using assms by (simp add: check_env_line default_log_callback_def check_env_spec_line_def)

theorem check_env_never_raises_witness:
  "backend_name broken_manager = Some ''broken'' \<and>
   (\<exists>v. check_env broken_manager bare_env default_log_callback () =
      ((), Inr (''broken'' @ '':'' @ [TAB] @ v)))"
proof -
  have h: "backend_name broken_manager = Some ''broken''"
    by (simp add: broken_manager_def BaseBackendManager_def)
  from check_env_never_raises [OF h, of bare_env "()"] h show ?thesis by simp
qed

text \<open>
  Claim C3. \<^verbatim>\<open>check_env\<close> computes the line of the specification: the name, a colon, a
  tab, and then the result of \<^verbatim>\<open>get_version\<close> when \<^verbatim>\<open>is_available\<close> is true (\<open>Unknown\<close>
  when \<^verbatim>\<open>get_version\<close> raises \<^verbatim>\<open>NotImplementedError\<close>), \<open>None\<close> when \<^verbatim>\<open>is_available\<close> is
  false, and \<open>CheckFailed\<close> on any other exception. That line is given to the callback
  (the callback's state afterwards is the one it reaches on this line) and is the value
  returned, when the callback returns.
\<close>

theorem check_env_computes:
  assumes "backend_name cls = Some n"
    and "snd (log_callback (check_env_spec_line cls env n) l) = None"
  shows "check_env cls env log_callback l =
           (fst (log_callback (check_env_spec_line cls env n) l),
            Inr (check_env_spec_line cls env n))"
  using assms
  by (cases "log_callback (check_env_spec_line cls env n) l") (simp add: check_env_line)

theorem check_env_computes_witness:
  "backend_name dummy2_manager = Some ''dummy2'' \<and>
   snd (recording_callback (check_env_spec_line dummy2_manager bare_env ''dummy2'') []) = None \<and>
   check_env dummy2_manager bare_env recording_callback [] =
     ([''dummy2:'' @ [TAB] @ ''None''], Inr (''dummy2:'' @ [TAB] @ ''None''))"
proof -
  have h1: "backend_name dummy2_manager = Some ''dummy2''"
    by (simp add: dummy2_manager_def BaseBackendManager_def)
  have h2: "snd (recording_callback (check_env_spec_line dummy2_manager bare_env ''dummy2'') []) = None"
    by (simp add: recording_callback_def)
  have line: "check_env_spec_line dummy2_manager bare_env ''dummy2'' = ''dummy2:'' @ [TAB] @ ''None''"
    by (simp add: check_env_spec_line_def dummy2_manager_def BaseBackendManager_def)
  from check_env_computes [where cls = dummy2_manager and n = "''dummy2''" and env = bare_env
      and log_callback = recording_callback and l = "[]", OF h1 h2] h1 h2 show ?thesis
    by (simp add: line recording_callback_def)
qed

text \<open>
  Claim C10. The callback is called outside the exception guard of \<^verbatim>\<open>check_env\<close>: when
  the callback raises on the formatted line, that exception leaves \<^verbatim>\<open>check_env\<close>, although
  a failure of the probes does not.
\<close>

theorem check_env_callback_propagates:
  assumes "backend_name cls = Some n"
    and "log_callback (check_env_spec_line cls env n) l = (l', Some e)"
  shows "check_env cls env log_callback l = (l', Inl e)"
  using assms by (simp add: check_env_line)

theorem check_env_callback_propagates_witness:
  "backend_name broken_manager = Some ''broken'' \<and>
   raising_callback (TypeError ''callback'') (check_env_spec_line broken_manager bare_env ''broken'') (0::nat)
     = (0, Some (TypeError ''callback'')) \<and>
   check_env broken_manager bare_env (raising_callback (TypeError ''callback'')) (0::nat)
     = (0, Inl (TypeError ''callback'')) \<and>
   check_env broken_manager bare_env default_log_callback (0::nat)
     = (0, Inr (''broken:'' @ [TAB] @ ''CheckFailed''))"
proof -
  have h1: "backend_name broken_manager = Some ''broken''"
    by (simp add: broken_manager_def BaseBackendManager_def)
  have h2: "raising_callback (TypeError ''callback'')
      (check_env_spec_line broken_manager bare_env ''broken'') (0::nat)
     = (0, Some (TypeError ''callback''))"
    by (simp add: raising_callback_def)
  have h3: "check_env broken_manager bare_env default_log_callback (0::nat)
     = (0, Inr (''broken:'' @ [TAB] @ ''CheckFailed''))"
    unfolding check_env_line [OF h1]
    by (simp add: default_log_callback_def check_env_spec_line_def
        broken_manager_def BaseBackendManager_def)
  from check_env_callback_propagates [where cls = broken_manager and n = "''broken''"
      and env = bare_env and log_callback = "raising_callback (TypeError ''callback'')"
      and l = "0::nat", OF h1 h2] h1 h2 h3
  show ?thesis by simp
qed

section \<open>Building a backend and reading its version\<close>

text \<open>
  Claim C4. For the TensorRT and the Ascend manager, \<^verbatim>\<open>build_backend\<close> looks at the first
  element of \<open>backend_files\<close> after home-directory expansion: when it is not a file the
  call raises \<^verbatim>\<open>FileNotFoundError\<close>, otherwise it returns the wrapper of that manager;
  and the outcome with \<open>input_names\<close> and \<open>output_names\<close> absent is the outcome with
  them present, so their absence alone never makes the call raise.
\<close>

theorem build_backend_checks_file:
  "TensorRTManager_build_backend env (f # fs) device_type device_id input_names output_names =
     (if isfile env (expanduser env f) then Inr (TRTBackend (expanduser env f))
      else Inl (FileNotFoundError (not_found_message (expanduser env f)))) \<and>
   AscendManager_build_backend env (f # fs) device device_id input_names output_names =
     (if isfile env (expanduser env f) then Inr (AscendBackend (expanduser env f) device_id)
      else Inl (FileNotFoundError (not_found_message (expanduser env f)))) \<and>
   TensorRTManager_build_backend env (f # fs) device_type device_id None None =
     TensorRTManager_build_backend env (f # fs) device_type device_id input_names output_names \<and>
   AscendManager_build_backend env (f # fs) device device_id None None =
     AscendManager_build_backend env (f # fs) device device_id input_names output_names"
  by (simp add: TensorRTManager_build_backend_def AscendManager_build_backend_def first_item_def)

theorem build_backend_checks_file_witness:
  "TensorRTManager_build_backend file_env [''/nonexistent/path''] ''cpu'' 0 None None =
     Inl (FileNotFoundError ''`/nonexistent/path` not found.'') \<and>
   AscendManager_build_backend file_env [''/nonexistent/path''] ''cpu'' 0 None None =
     Inl (FileNotFoundError ''`/nonexistent/path` not found.'') \<and>
   TensorRTManager_build_backend file_env [''~/m.engine''] ''cuda'' 0 None None =
     Inr (TRTBackend ''/home/u/m.engine'') \<and>
   AscendManager_build_backend file_env [''~/m.engine'', ''other''] ''npu'' 2 None None =
     Inr (AscendBackend ''/home/u/m.engine'' 2)"
proof -
  have e: "expanduser file_env ''/nonexistent/path'' = ''/nonexistent/path''"
    "expanduser file_env ''~/m.engine'' = ''/home/u/m.engine''"
    "\<not> isfile file_env ''/nonexistent/path''" "isfile file_env ''/home/u/m.engine''"
    by (simp_all add: file_env_def bare_env_def)
  from build_backend_checks_file [of file_env "''/nonexistent/path''" "[]" "''cpu''" 0 None None "''cpu''"]
    build_backend_checks_file [of file_env "''~/m.engine''" "[]" "''cuda''" 0 None None "''npu''"]
    build_backend_checks_file [of file_env "''~/m.engine''" "[''other'']" "''cuda''" 2 None None "''npu''"]
  show ?thesis by (simp add: e not_found_message_def)
qed

text \<open>
  Claim C9. With an empty \<open>backend_files\<close> both managers raise the index error of
  \<^verbatim>\<open>backend_files[0]\<close>, whatever the file system holds: the file check is not reached and
  the error is not \<^verbatim>\<open>FileNotFoundError\<close>.
\<close>

theorem build_backend_empty_files:
  "TensorRTManager_build_backend env [] device_type device_id input_names output_names =
     Inl (IndexError ''list index out of range'') \<and>
   AscendManager_build_backend env [] device device_id input_names output_names =
     Inl (IndexError ''list index out of range'')"
  by (simp add: TensorRTManager_build_backend_def AscendManager_build_backend_def first_item_def)

text \<open>
  Claim C5, as stated, fails: \<^verbatim>\<open>import pkg_resources\<close> stands between the availability
  test and the \<^verbatim>\<open>try\<close> statement, so where the backend is installed and \<^verbatim>\<open>pkg_resources\<close>
  is not, \<^verbatim>\<open>get_version\<close> of either manager raises \<^verbatim>\<open>ModuleNotFoundError\<close>.
\<close>

theorem get_version_raises_without_pkg_resources:
  "TensorRTManager_is_available False no_pkg_resources_env = Inr True \<and>
   TensorRTManager_get_version no_pkg_resources_env =
     Inl (ModuleNotFoundError ''No module named pkg_resources'') \<and>
   AscendManager_is_available False no_pkg_resources_env = Inr True \<and>
   AscendManager_get_version no_pkg_resources_env =
     Inl (ModuleNotFoundError ''No module named pkg_resources'')"
  by (simp add: TensorRTManager_get_version_def TensorRTManager_is_available_def
      AscendManager_get_version_def AscendManager_is_available_def
      no_pkg_resources_env_def bare_env_def)

text \<open>
  Claim C5, amended. For the TensorRT and the Ascend manager, \<^verbatim>\<open>get_version\<close> returns the
  string \<open>None\<close> whenever \<^verbatim>\<open>is_available\<close> is false; when \<^verbatim>\<open>is_available\<close> is true and
  \<^verbatim>\<open>pkg_resources\<close> can be imported, it returns the version of the installed
  distribution, and \<open>None\<close> on any failure of that lookup, without raising.
\<close>

theorem get_version_guarded:
  "(TensorRTManager_is_available False env = Inr False \<longrightarrow>
      TensorRTManager_get_version env = Inr ''None'') \<and>
   (TensorRTManager_is_available False env = Inr True \<and> import_pkg_resources env = None \<longrightarrow>
      TensorRTManager_get_version env =
        Inr (case distribution_version env ''tensorrt'' of Inr v \<Rightarrow> v | Inl e \<Rightarrow> ''None'')) \<and>
   (AscendManager_is_available False env = Inr False \<longrightarrow>
      AscendManager_get_version env = Inr ''None'') \<and>
   (AscendManager_is_available False env = Inr True \<and> import_pkg_resources env = None \<longrightarrow>
      AscendManager_get_version env =
        Inr (case distribution_version env ''ais_bench'' of Inr v \<Rightarrow> v | Inl e \<Rightarrow> ''None''))"
  by (simp add: TensorRTManager_get_version_def AscendManager_get_version_def split: sum.splits)

theorem get_version_guarded_witness:
  "TensorRTManager_is_available False bare_env = Inr False \<and>
   TensorRTManager_get_version bare_env = Inr ''None'' \<and>
   AscendManager_is_available False bare_env = Inr False \<and>
   AscendManager_get_version bare_env = Inr ''None'' \<and>
   TensorRTManager_is_available False installed_env = Inr True \<and>
   import_pkg_resources installed_env = None \<and>
   TensorRTManager_get_version installed_env = Inr ''8.6.1'' \<and>
   AscendManager_is_available False installed_env = Inr True \<and>
   AscendManager_get_version installed_env = Inr ''None''"
proof -
  have a: "TensorRTManager_is_available False bare_env = Inr False"
    "AscendManager_is_available False bare_env = Inr False"
    by (simp_all add: TensorRTManager_is_available_def AscendManager_is_available_def bare_env_def)
  have b: "TensorRTManager_is_available False installed_env = Inr True"
    "AscendManager_is_available False installed_env = Inr True"
    "import_pkg_resources installed_env = None"
    by (simp_all add: TensorRTManager_is_available_def AscendManager_is_available_def
        installed_env_def bare_env_def)
  have c: "distribution_version installed_env ''tensorrt'' = Inr ''8.6.1''"
    "distribution_version installed_env ''ais_bench'' = Inl (Exception ''DistributionNotFound'')"
    by (simp_all add: installed_env_def bare_env_def)
  from get_version_guarded [of bare_env] get_version_guarded [of installed_env] a b c
  show ?thesis by simp
qed

section \<open>Registration\<close>

text \<open>
  A registration never raises, and its effect on each part of the state is explicit:
  the dictionary gets the class under the name, the enumeration gets a member when the
  label is not yet an attribute of the class, the class object gets the name as its
  \<open>backend_name\<close>.
\<close>

lemma wrap_manager_result:
  obtains s' where "wrap_manager name lbl c s = Inr s'"
    and "module_dict s' = AList.update name c (module_dict s)"
    and "members (Backend s') =
           (if hasattr (Backend s) lbl then members (Backend s) else members (Backend s) @ [(lbl, name)])"
    and "other_attributes (Backend s') = other_attributes (Backend s)"
    and "classes s' = (classes s)(c := (classes s c)\<lparr>backend_name := Some name\<rparr>)"
    and "sys_modules s' = sys_modules s"
  by (cases "hasattr (Backend s) lbl"; cases "name \<in> set (map fst (module_dict s))")
    (simp_all add: wrap_manager_def extend_enum_def Let_def)

lemma register_result:
  obtains s' where "BackendManagerRegistry_register name en c s = Inr s'"
    and "module_dict s' = AList.update name c (module_dict s)"
    and "members (Backend s') =
           (if hasattr (Backend s) (enum_label name en) then members (Backend s)
            else members (Backend s) @ [(enum_label name en, name)])"
    and "other_attributes (Backend s') = other_attributes (Backend s)"
    and "classes s' = (classes s)(c := (classes s c)\<lparr>backend_name := Some name\<rparr>)"
    and "sys_modules s' = sys_modules s"
  unfolding BackendManagerRegistry_register_def by (rule wrap_manager_result)

lemma register_all_keys:
  "\<exists>s'. register_all rs s = Inr s' \<and>
     set (map fst (module_dict s')) = set (map fst (module_dict s)) \<union> set (map fst rs) \<and>
     sys_modules s' = sys_modules s"
proof (induction rs arbitrary: s)
  case Nil
  then show ?case by simp
next
  case (Cons r rs)
  obtain name en c where r: "r = (name, en, c)" by (cases r)
  obtain s1 where s1: "BackendManagerRegistry_register name en c s = Inr s1"
    "module_dict s1 = AList.update name c (module_dict s)" "sys_modules s1 = sys_modules s"
    by (rule register_result)
  from Cons.IH [of s1] obtain s' where s': "register_all rs s1 = Inr s'"
    "set (map fst (module_dict s')) = set (map fst (module_dict s1)) \<union> set (map fst rs)"
    "sys_modules s' = sys_modules s1" by blast
  have "fst ` set (AList.update name c (module_dict s)) = {name} \<union> fst ` set (module_dict s)"
    by (rule AList.dom_update)
  with r s1 s' show ?case by auto
qed



lemma in_keys_map_of: "k \<in> set (map fst al) \<Longrightarrow> \<exists>v. map_of al k = Some v"
  by (induction al) auto





lemma example_labels:
  "enum_label ''dummy'' None = ''DUMMY''" "enum_label ''tensorrt'' None = ''TENSORRT''"
  "enum_label ''x'' None = ''X''" "enum_label ''X'' None = ''X''"
  "enum_label name (Some lbl) = lbl"
  by (simp_all add: enum_label_def upper_def upper_char_def)




text \<open>
  Two registrations of \<open>dummy\<close> with the default label: the enumeration is extended once,
  the second registration is reported and goes through.
\<close>

lemma register_twice_effect:
  "map_sum id logged (register_all [(''dummy'', None, 2), (''dummy'', None, 3)]
      (initial_state example_store (example_enum [(''TENSORRT'', ''tensorrt'')]))) =
   Inr [''Registry new backend: DUMMY = dummy.'',
        ''Backend manager of `dummy` has already been registered.'']"
  "map_sum id (members_with_value ''dummy'') (register_all [(''dummy'', None, 2), (''dummy'', None, 3)]
      (initial_state example_store (example_enum [(''TENSORRT'', ''tensorrt'')]))) =
   Inr [(''DUMMY'', ''dummy'')]"
  by (simp_all add: BackendManagerRegistry_register_def wrap_manager_def extend_enum_def hasattr_def
      example_labels initial_state_def example_enum_def members_with_value_def Let_def)




section \<open>Lookup\<close>

text \<open>
  The state reached by a history of registrations is described by the history: the
  dictionary maps each name to the class registered last under it, and each class
  object that was registered carries the name of its latest registration.
\<close>

lemma last_class_snoc:
  "last_class n (h @ [(name, en, c)]) = (if n = name then Some c else last_class n h)"
  by (simp add: last_class_def)

lemma last_name_snoc:
  "last_name c' (h @ [(name, en, c)]) = (if c' = c then Some name else last_name c' h)"
  by (simp add: last_name_def)

lemma register_history:
  assumes "\<forall>n. map_of (module_dict s) n = last_class n h"
    and "\<forall>c' \<in> set (map (snd \<circ> snd) h). backend_name (classes s c') = last_name c' h"
    and "BackendManagerRegistry_register name en c s = Inr s'"
  shows "(\<forall>n. map_of (module_dict s') n = last_class n (h @ [(name, en, c)])) \<and>
         (\<forall>c' \<in> set (map (snd \<circ> snd) (h @ [(name, en, c)])).
            backend_name (classes s' c') = last_name c' (h @ [(name, en, c)]))"
proof -
  obtain s1 where s1: "BackendManagerRegistry_register name en c s = Inr s1"
    "module_dict s1 = AList.update name c (module_dict s)"
    "classes s1 = (classes s)(c := (classes s c)\<lparr>backend_name := Some name\<rparr>)"
    by (rule register_result)
  with assms(3) have eq: "s' = s1" by simp
  from assms(1) have a: "\<forall>n. map_of (module_dict s1) n = last_class n (h @ [(name, en, c)])"
    by (simp add: s1(2) AList.update_conv' last_class_snoc)
  from assms(2) have b: "\<forall>c' \<in> set (map (snd \<circ> snd) (h @ [(name, en, c)])).
            backend_name (classes s1 c') = last_name c' (h @ [(name, en, c)])"
    by (auto simp: s1(3) last_name_snoc)
  from a b show ?thesis unfolding eq by blast
qed

lemma register_all_history:
  "\<forall>n. map_of (module_dict s) n = last_class n h \<Longrightarrow>
   \<forall>c' \<in> set (map (snd \<circ> snd) h). backend_name (classes s c') = last_name c' h \<Longrightarrow>
   register_all rs s = Inr s' \<Longrightarrow>
   (\<forall>n. map_of (module_dict s') n = last_class n (h @ rs)) \<and>
   (\<forall>c' \<in> set (map (snd \<circ> snd) (h @ rs)). backend_name (classes s' c') = last_name c' (h @ rs))"
proof (induction rs arbitrary: s h)
  case Nil
  then show ?case by simp
next
  case (Cons r rs)
  obtain name en c where r: "r = (name, en, c)" by (cases r)
  obtain s1 where s1: "BackendManagerRegistry_register name en c s = Inr s1"
    by (rule register_result)
  from register_history [OF Cons.prems(1) Cons.prems(2) s1]
  have h1: "\<forall>n. map_of (module_dict s1) n = last_class n (h @ [(name, en, c)])"
    "\<forall>c' \<in> set (map (snd \<circ> snd) (h @ [(name, en, c)])).
        backend_name (classes s1 c') = last_name c' (h @ [(name, en, c)])"
    by blast+
  from Cons.prems(3) r s1 have "register_all rs s1 = Inr s'" by simp
  from Cons.IH [OF h1 this] show ?case by (simp add: r)
qed

lemma last_class_registered:
  "name \<in> set (map fst h) \<Longrightarrow> \<exists>c. last_class name h = Some c \<and> c \<in> set (map (snd \<circ> snd) h)"
proof -
  assume "name \<in> set (map fst h)"
  then have "name \<in> set (map fst (map (\<lambda>r. (fst r, snd (snd r))) (rev h)))"
    by (simp add: comp_def)
  from in_keys_map_of [OF this] obtain c where c: "last_class name h = Some c"
    by (auto simp: last_class_def)
  then have "(name, c) \<in> set (map (\<lambda>r. (fst r, snd (snd r))) (rev h))"
    unfolding last_class_def by (rule map_of_SomeD)
  then have "c \<in> set (map (snd \<circ> snd) h)" by auto
  with c show ?thesis by blast
qed

lemma single_named_last_name:
  assumes "single_named h" and "last_class name h = Some c"
  shows "last_name c h = Some name"
proof -
  let ?f = "\<lambda>r::registration. (fst r, snd (snd r))"
  let ?g = "\<lambda>r::registration. (snd (snd r), fst r)"
  from assms(2) have "(name, c) \<in> set (map ?f (rev h))"
    unfolding last_class_def by (rule map_of_SomeD)
  then have "(name, c) \<in> ?f ` set h" by simp
  then obtain r where r: "r \<in> set h" "(name, c) = ?f r" by (rule imageE)
  then have rn: "fst r = name" and rc: "snd (snd r) = c" by simp_all
  from r(1) have "?g r \<in> ?g ` set h" by (rule imageI)
  then have "(c, name) \<in> set (map ?g (rev h))" by (simp add: rn rc)
  from weak_map_of_SomeI [OF this] obtain n' where n': "last_name c h = Some n'"
    unfolding last_name_def by blast
  then have "(c, n') \<in> set (map ?g (rev h))"
    unfolding last_name_def by (rule map_of_SomeD)
  then have "(c, n') \<in> ?g ` set h" by simp
  then obtain r' where r': "r' \<in> set h" "(c, n') = ?g r'" by (rule imageE)
  then have rn': "fst r' = n'" and rc': "snd (snd r') = c" by simp_all
  from assms(1) have "\<forall>r1 \<in> set h. \<forall>r2 \<in> set h. snd (snd r1) \<noteq> snd (snd r2) \<or> fst r1 = fst r2"
    unfolding single_named_def list_all_iff .
  with r'(1) r(1) have "snd (snd r') \<noteq> snd (snd r) \<or> fst r' = fst r" by blast
  then have "n' = name" by (simp add: rn rc rn' rc')
  with n' show ?thesis by simp
qed

lemma import_module_result:
  assumes "importable env m s"
  shows "\<exists>s'. import_module env m s = Inr s' \<and>
     register_all (pending_registrations env m s) (if m \<in> set (sys_modules s) then s else mark_loaded m s)
       = Inr s' \<and>
     set (map fst (module_dict s')) =
       set (map fst (module_dict s)) \<union> set (map fst (pending_registrations env m s))"
proof (cases "m \<in> set (sys_modules s)")
  case True
  then show ?thesis by (simp add: import_module_def pending_registrations_def)
next
  case False
  with assms obtain rs where rs: "modules env m = Import_runs rs"
    by (auto simp: importable_def split: module_body.splits)
  from register_all_keys [of rs "mark_loaded m s"] obtain s' where
    "register_all rs (mark_loaded m s) = Inr s'"
    "set (map fst (module_dict s')) = set (map fst (module_dict (mark_loaded m s))) \<union> set (map fst rs)"
    by blast
  with False rs show ?thesis
    by (simp add: import_module_def pending_registrations_def mark_loaded_def)
qed

lemma tensorrt_registered_eq:
  "register_all [(''tensorrt'', None, 0)] (initial_state example_store (example_enum [])) =
     Inr tensorrt_registered"
  by (simp add: BackendManagerRegistry_register_def wrap_manager_def extend_enum_def hasattr_def
      example_labels initial_state_def example_enum_def Let_def tensorrt_registered_def
      example_store_def)

text \<open>
  Claim C8, as stated, fails: \<^verbatim>\<open>cls.backend_name = name\<close> writes to the class object, so
  a class object registered under \<open>plain\<close> and then under \<open>other\<close> is found under
  \<open>plain\<close> and has the \<open>backend_name\<close> \<open>other\<close>.
\<close>

theorem find_shared_class:
  "then_do (register_all [(''plain'', None, 2), (''other'', None, 2)]
       (initial_state example_store (example_enum [])))
     (find_backend_name example_env ''plain'') = Inr ''other''"
  by (simp add: then_do_def BackendManagerRegistry_register_def wrap_manager_def extend_enum_def
      hasattr_def enum_label_def upper_def upper_char_def initial_state_def example_enum_def Let_def
      BackendManagerRegistry_find_def import_module_def backend_module_def example_env_def
      bare_env_def find_backend_name_def get_backend_name_def mark_loaded_def)

text \<open>
  Claim C8, amended. For every registered name whose module \<^verbatim>\<open>dlicv.backend.<name>\<close> is
  loaded already or imports without an exception, \<^verbatim>\<open>find\<close> returns an implementation:
  in a process whose registrations so far are the history \<open>h\<close>, it is the class
  registered last under the name, and its \<open>backend_name\<close> is the name under which that
  class object was registered last, which is the queried name provided no class object
  is registered under two different names.
\<close>

theorem find_registered:
  "(name \<in> set (map fst (module_dict s)) \<and> importable env (backend_module name) s \<longrightarrow>
      (\<exists>c s'. BackendManagerRegistry_find env name s = Inr (Some c, s'))) \<and>
   (register_all h (initial_state store enum) = Inr s0 \<and> s = s0\<lparr>sys_modules := loaded\<rparr> \<and>
    name \<in> set (map fst h) \<and> importable env (backend_module name) s \<longrightarrow>
      (\<exists>c s'. BackendManagerRegistry_find env name s = Inr (Some c, s') \<and>
         last_class name (h @ pending_registrations env (backend_module name) s) = Some c \<and>
         backend_name (classes s' c) =
           last_name c (h @ pending_registrations env (backend_module name) s) \<and>
         (single_named (h @ pending_registrations env (backend_module name) s) \<longrightarrow>
            find_backend_name env name s = Inr name)))"
proof (intro conjI impI)
  assume a: "name \<in> set (map fst (module_dict s)) \<and> importable env (backend_module name) s"
  from import_module_result [of env "backend_module name" s] a obtain s' where s':
    "import_module env (backend_module name) s = Inr s'"
    "set (map fst (module_dict s')) =
       set (map fst (module_dict s)) \<union> set (map fst (pending_registrations env (backend_module name) s))"
    by blast
  with a have "name \<in> set (map fst (module_dict s'))" by simp
  then obtain c where "map_of (module_dict s') name = Some c"
    using in_keys_map_of by fastforce
  with s'(1) show "\<exists>c s'. BackendManagerRegistry_find env name s = Inr (Some c, s')"
    by (simp add: BackendManagerRegistry_find_def)
next
  let ?m = "backend_module name"
  let ?p = "pending_registrations env ?m s"
  let ?H = "h @ ?p"
  assume a: "register_all h (initial_state store enum) = Inr s0 \<and> s = s0\<lparr>sys_modules := loaded\<rparr> \<and>
    name \<in> set (map fst h) \<and> importable env (backend_module name) s"
  then have run: "register_all h (initial_state store enum) = Inr s0"
    and s: "s = s0\<lparr>sys_modules := loaded\<rparr>"
    and reg: "name \<in> set (map fst h)"
    and imp: "importable env ?m s" by blast+
  have i1: "\<forall>n. map_of (module_dict (initial_state store enum)) n = last_class n []"
    by (simp add: initial_state_def last_class_def)
  have i2: "\<forall>c' \<in> set (map (snd \<circ> snd) ([] :: registration list)).
      backend_name (classes (initial_state store enum) c') = last_name c' []" by simp
  from register_all_history [OF i1 i2] run
  have h0: "\<forall>n. map_of (module_dict s0) n = last_class n h"
    "\<forall>c' \<in> set (map (snd \<circ> snd) h). backend_name (classes s0 c') = last_name c' h"
    by fastforce+
  let ?s1 = "if ?m \<in> set (sys_modules s) then s else mark_loaded ?m s"
  have f: "module_dict ?s1 = module_dict s0" "classes ?s1 = classes s0"
    by (simp_all add: s mark_loaded_def)
  from import_module_result [OF imp] obtain s' where s':
    "import_module env ?m s = Inr s'" "register_all ?p ?s1 = Inr s'" by blast
  have h1: "\<forall>n. map_of (module_dict ?s1) n = last_class n h"
    "\<forall>c' \<in> set (map (snd \<circ> snd) h). backend_name (classes ?s1 c') = last_name c' h"
    using h0 unfolding f by blast+
  from register_all_history [OF h1 s'(2)]
  have H: "\<forall>n. map_of (module_dict s') n = last_class n ?H"
    "\<forall>c' \<in> set (map (snd \<circ> snd) ?H). backend_name (classes s' c') = last_name c' ?H"
    by blast+
  from reg have "name \<in> set (map fst ?H)" by simp
  from last_class_registered [OF this] obtain c where
    c: "last_class name ?H = Some c" "c \<in> set (map (snd \<circ> snd) ?H)" by blast
  have found: "BackendManagerRegistry_find env name s = Inr (Some c, s')"
    using H(1) c(1) by (simp add: BackendManagerRegistry_find_def s'(1))
  have bn: "backend_name (classes s' c) = last_name c ?H" using H(2) c(2) by blast
  have "find_backend_name env name s = Inr name" if "single_named ?H"
    using single_named_last_name [OF that c(1)] bn found
    by (simp add: find_backend_name_def get_backend_name_def)
  with found c(1) bn
  show "\<exists>c s'. BackendManagerRegistry_find env name s = Inr (Some c, s') \<and>
         last_class name ?H = Some c \<and> backend_name (classes s' c) = last_name c ?H \<and>
         (single_named ?H \<longrightarrow> find_backend_name env name s = Inr name)"
    by blast
qed

theorem find_registered_witness:
  "''tensorrt'' \<in> set (map fst (module_dict tensorrt_registered)) \<and>
   importable example_env (backend_module ''tensorrt'') tensorrt_registered \<and>
   register_all [(''tensorrt'', None, 0)] (initial_state example_store (example_enum [])) =
     Inr tensorrt_registered \<and>
   tensorrt_registered = tensorrt_registered\<lparr>sys_modules := []\<rparr> \<and>
   ''tensorrt'' \<in> set (map fst [(''tensorrt'', None, 0 :: class_id)]) \<and>
   single_named ([(''tensorrt'', None, 0)] @
     pending_registrations example_env (backend_module ''tensorrt'') tensorrt_registered) \<and>
   (\<exists>c s'. BackendManagerRegistry_find example_env ''tensorrt'' tensorrt_registered = Inr (Some c, s')) \<and>
   find_backend_name example_env ''tensorrt'' tensorrt_registered = Inr ''tensorrt''"
proof -
  have m: "modules example_env (backend_module ''tensorrt'') = Import_runs [(''tensorrt'', None, 0)]"
    by (simp add: example_env_def bare_env_def backend_module_def)
  have h1: "''tensorrt'' \<in> set (map fst (module_dict tensorrt_registered))"
    by (simp add: tensorrt_registered_def)
  have h2: "importable example_env (backend_module ''tensorrt'') tensorrt_registered"
    by (simp add: importable_def m)
  have h3: "tensorrt_registered = tensorrt_registered\<lparr>sys_modules := []\<rparr>"
    by (simp add: tensorrt_registered_def)
  have h4: "''tensorrt'' \<in> set (map fst [(''tensorrt'', None, 0 :: class_id)])" by simp
  have p: "pending_registrations example_env (backend_module ''tensorrt'') tensorrt_registered =
      [(''tensorrt'', None, 0)]"
    by (simp add: pending_registrations_def m tensorrt_registered_def)
  have h5: "single_named ([(''tensorrt'', None, 0)] @
     pending_registrations example_env (backend_module ''tensorrt'') tensorrt_registered)"
    unfolding p by (simp add: single_named_def)
  have pre: "register_all [(''tensorrt'', None, 0)] (initial_state example_store (example_enum [])) =
       Inr tensorrt_registered \<and>
     tensorrt_registered = tensorrt_registered\<lparr>sys_modules := []\<rparr> \<and>
     ''tensorrt'' \<in> set (map fst [(''tensorrt'', None, 0 :: class_id)]) \<and>
     importable example_env (backend_module ''tensorrt'') tensorrt_registered"
    using tensorrt_registered_eq h3 h4 h2 by (intro conjI)
  from find_registered [of "''tensorrt''" tensorrt_registered example_env
      "[(''tensorrt'', None, 0)]" example_store "example_enum []" tensorrt_registered "[]",
      THEN conjunct2, THEN mp, OF pre] h5
  have "(\<exists>c s'. BackendManagerRegistry_find example_env ''tensorrt'' tensorrt_registered =
           Inr (Some c, s')) \<and>
        find_backend_name example_env ''tensorrt'' tensorrt_registered = Inr ''tensorrt''"
    by blast
  with h1 h2 h3 h4 h5 tensorrt_registered_eq show ?thesis by (intro conjI) blast+
qed

text \<open>
  Claim C1. The claim: for a name that was never registered, \<^verbatim>\<open>find(name)\<close>, and hence
  \<^verbatim>\<open>get_backend_manager(name)\<close>, returns null without raising, also when no module
  \<^verbatim>\<open>dlicv.backend.<name>\<close> exists. The code: the import, which its comment announces as an
  attempt ("try import backend if backend is in backend"), is not guarded, so in a
  process without such a module the \<^verbatim>\<open>ModuleNotFoundError\<close> leaves \<^verbatim>\<open>find\<close> and
  \<^verbatim>\<open>get_backend_manager\<close> before the lookup with its null default is reached.
\<close>

theorem find_unregistered_raises:
  "BackendManagerRegistry_find bare_env ''never_registered'' (initial_state example_store (example_enum [])) =
     Inl (ModuleNotFoundError (''No module named '' @ quoted ''dlicv.backend.never_registered'')) \<and>
   get_backend_manager bare_env (Str ''never_registered'') (initial_state example_store (example_enum [])) =
     Inl (ModuleNotFoundError (''No module named '' @ quoted ''dlicv.backend.never_registered''))"
  by (simp add: get_backend_manager_def BackendManagerRegistry_find_def import_module_def
      backend_module_def bare_env_def initial_state_def)

text \<open>
  The other case of the claim holds: when the module is loaded already, or imports and
  registers nothing under the name, \<^verbatim>\<open>find\<close> returns null. Whatever the import raises is
  what \<^verbatim>\<open>find\<close> raises, also for a name that was registered by hand.
\<close>

lemma find_unregistered_importable:
  assumes "name \<notin> set (map fst (module_dict s))"
    and "importable env (backend_module name) s"
    and "name \<notin> set (map fst (pending_registrations env (backend_module name) s))"
  shows "\<exists>s'. BackendManagerRegistry_find env name s = Inr (None, s') \<and>
            get_backend_manager env (Str name) s = Inr (None, s') \<and>
            get_backend_manager env (Enum_member l name) s = Inr (None, s')"
proof -
  from import_module_result [OF assms(2)] obtain s' where s':
    "import_module env (backend_module name) s = Inr s'"
    "set (map fst (module_dict s')) =
       set (map fst (module_dict s)) \<union> set (map fst (pending_registrations env (backend_module name) s))"
    by blast
  with assms have "name \<notin> set (map fst (module_dict s'))" by simp
  then have "map_of (module_dict s') name = None" by (simp add: map_of_eq_None_iff)
  with s'(1) show ?thesis
    by (simp add: BackendManagerRegistry_find_def get_backend_manager_def)
qed

lemma find_import_raises:
  assumes "backend_module name \<notin> set (sys_modules s)"
    and "modules env (backend_module name) = Import_raises e"
  shows "BackendManagerRegistry_find env name s = Inl e"
    and "get_backend_manager env (Str name) s = Inl e"
  using assms
  by (simp_all add: get_backend_manager_def BackendManagerRegistry_find_def import_module_def)

lemma find_examples:
  "map_sum id fst (BackendManagerRegistry_find example_env ''plain'' tensorrt_registered) = Inr None"
  "then_do (register_all [(''dummy'', None, 2)] (initial_state example_store (example_enum [])))
     (BackendManagerRegistry_find example_env ''dummy'') =
     Inl (ModuleNotFoundError (''No module named '' @ quoted ''dlicv.backend.dummy''))"
  by (simp_all add: then_do_def BackendManagerRegistry_register_def wrap_manager_def extend_enum_def
      hasattr_def enum_label_def upper_def upper_char_def initial_state_def example_enum_def Let_def
      BackendManagerRegistry_find_def import_module_def backend_module_def example_env_def
      bare_env_def mark_loaded_def tensorrt_registered_def)

end
